theory Spec2Isabelle
  imports Complex_Main
begin

section \<open>The transport hook \<open>useWebSocket\<close> (second module of hooks/useSecureWebSocket.ts)\<close>

text \<open>
  The hook keeps its state in React refs and state cells; the model keeps one record of
  them and every callback of the hook is a function from record to record.  The browser's
  socket is represented by the \<open>readyState\<close> of \<open>ws.current\<close> (\<open>None\<close> is \<open>null\<close>).
  Five trace fields record what the hook does to the outside: the strings handed to an
  open socket, the delays passed to \<open>setTimeout(connect, delay)\<close>, the number of
  \<open>new WebSocket(url)\<close> evaluations, the handler invocations and the console lines.

  Delays are JavaScript numbers.  They are modelled as rationals: every value that
  \<open>retryDelay\<close> takes from its initial value (1000 times a power of 1.5 below 30000, or
  30000 itself) is a dyadic rational that a double holds exactly.
\<close>

datatype ready_state = CONNECTING | OPEN | CLOSING | CLOSED

type_synonym handler = nat

record 'p ws_message =
  mtype :: string
  payload :: 'p

datatype 'o message = MsgString string | MsgObject 'o

record 'p ws_hook =
  urlValid :: bool
  ws :: "ready_state option"
  isConnected :: bool
  error :: "string option"
  reconnectTimeout :: "rat option"
  messageQueue :: "string list"
  eventHandlers :: "string \<Rightarrow> handler list option"
  retryDelay :: rat
  transmitted :: "string list"
  timers :: "rat list"
  connectAttempts :: nat
  invoked :: "(handler \<times> 'p) list"
  console :: "string list"

definition INITIAL_RETRY_DELAY :: rat where
  "INITIAL_RETRY_DELAY = 1000"

definition MAX_RETRY_DELAY :: rat where
  "MAX_RETRY_DELAY = 30000"

definition RETRY_MULTIPLIER :: rat where
  "RETRY_MULTIPLIER = 3 / 2"

text \<open>The refs and state cells as \<open>useRef\<close>/\<open>useState\<close> initialise them.\<close>

definition hook_init :: "bool \<Rightarrow> 'p ws_hook" where
  "hook_init ok =
     \<lparr> urlValid = ok, ws = None, isConnected = False, error = None,
       reconnectTimeout = None, messageQueue = [], eventHandlers = (\<lambda>_. None),
       retryDelay = INITIAL_RETRY_DELAY, transmitted = [], timers = [],
       connectAttempts = 0, invoked = [], console = [] \<rparr>"

text \<open>
  \<open>connect\<close>: returns at once when the current socket is open; otherwise evaluates
  \<open>new WebSocket(url)\<close>, which throws on a malformed URL (\<open>urlValid\<close> false) and is then
  caught, setting the error.
\<close>

definition connect :: "'p ws_hook \<Rightarrow> 'p ws_hook" where
  "connect s =
     (if ws s = Some OPEN then s
      else if urlValid s
        then s\<lparr>ws := Some CONNECTING, connectAttempts := Suc (connectAttempts s)\<rparr>
        else s\<lparr>connectAttempts := Suc (connectAttempts s),
               error := Some ''Failed to establish WebSocket connection'',
               console := console s @ [''WebSocket connection error:'']\<rparr>)"





definition onclose :: "bool \<Rightarrow> 'p ws_hook \<Rightarrow> 'p ws_hook" where
  "onclose wasClean s =
     (let s1 = s\<lparr>isConnected := False\<rparr>
      in if \<not> wasClean
         then (let delay = min (retryDelay s1 * RETRY_MULTIPLIER) MAX_RETRY_DELAY
               in s1\<lparr>retryDelay := delay, reconnectTimeout := Some delay,
                      timers := timers s1 @ [delay]\<rparr>)
         else s1)"

definition onerror :: "'p ws_hook \<Rightarrow> 'p ws_hook" where
  "onerror s =
     s\<lparr>error := Some ''WebSocket connection error'',
       console := console s @ [''WebSocket error:'']\<rparr>"


definition socket_closes :: "bool \<Rightarrow> 'p ws_hook \<Rightarrow> 'p ws_hook" where
  "socket_closes wasClean s = onclose wasClean (s\<lparr>ws := Some CLOSED\<rparr>)"

definition timer_fires :: "'p ws_hook \<Rightarrow> 'p ws_hook" where
  "timer_fires s = connect s"

text \<open>The hook after mounting: the effect has called \<open>connect\<close> once.\<close>

definition mounted :: "'p ws_hook" where
  "mounted = connect (hook_init True)"



text \<open>
  The registry is a \<open>Map\<close> from type to a \<open>Set\<close> of handlers.  A JavaScript \<open>Set\<close>
  iterates in insertion order and \<open>add\<close> of a member changes nothing, so a set is a list
  in insertion order; a handler reference is a number.
\<close>

definition on :: "string \<Rightarrow> handler \<Rightarrow> 'p ws_hook \<Rightarrow> 'p ws_hook" where
  "on type h s =
     (let hs = (case eventHandlers s type of None \<Rightarrow> [] | Some hs \<Rightarrow> hs)
      in s\<lparr>eventHandlers :=
             (eventHandlers s)(type \<mapsto> (if h \<in> set hs then hs else hs @ [h]))\<rparr>)"

definition off :: "string \<Rightarrow> handler \<Rightarrow> 'p ws_hook \<Rightarrow> 'p ws_hook" where
  "off type h s =
     (case eventHandlers s type of
        None \<Rightarrow> s
      | Some hs \<Rightarrow> s\<lparr>eventHandlers := (eventHandlers s)(type \<mapsto> removeAll h hs)\<rparr>)"

text \<open>
  \<open>onmessage\<close>.  \<open>JSON.parse\<close> is a parameter (\<open>None\<close> when it throws, or returns
  a value such as \<open>null\<close> whose \<open>type\<close> cannot be read: both end in the outer \<open>catch\<close>);
  a type that is missing or falsy is the empty string.  What a handler does is outside the hook: the
  model records the call and is told by \<open>throws\<close> whether the call raises.
\<close>

definition handler_error_line :: "string \<Rightarrow> string" where
  "handler_error_line type = ''Error in message handler for type '' @ type @ '':''"

fun dispatch :: "(handler \<Rightarrow> 'p \<Rightarrow> bool) \<Rightarrow> 'p ws_message \<Rightarrow> handler list \<Rightarrow> 'p ws_hook \<Rightarrow> 'p ws_hook" where
  "dispatch throws message [] s = s"
| "dispatch throws message (h # hs) s =
     dispatch throws message hs
       (let s1 = s\<lparr>invoked := invoked s @ [(h, payload message)]\<rparr>
        in if throws h (payload message)
           then s1\<lparr>console := console s1 @ [handler_error_line (mtype message)]\<rparr>
           else s1)"

definition onmessage :: "(string \<Rightarrow> 'p ws_message option) \<Rightarrow> (handler \<Rightarrow> 'p \<Rightarrow> bool) \<Rightarrow> string \<Rightarrow> 'p ws_hook \<Rightarrow> 'p ws_hook" where
  "onmessage parse throws data s =
     (case parse data of
        None \<Rightarrow> s\<lparr>console := console s @ [''Error parsing WebSocket message:'']\<rparr>
      | Some message \<Rightarrow>
          if mtype message = []
          then s\<lparr>console := console s @ [''Invalid message format: missing type'']\<rparr>
          else (case eventHandlers s (mtype message) of
                  None \<Rightarrow> s
                | Some handlers \<Rightarrow> dispatch throws message handlers s))"

text \<open>\<open>close()\<close> of a socket, and the hook's \<open>reconnect\<close>.\<close>

fun socket_close :: "ready_state \<Rightarrow> ready_state" where
  "socket_close CLOSED = CLOSED"
| "socket_close _ = CLOSING"




definition registered :: "'p ws_hook \<Rightarrow> string \<Rightarrow> handler list" where
  "registered s type = (case eventHandlers s type of None \<Rightarrow> [] | Some hs \<Rightarrow> hs)"

section \<open>Message envelope (types/websocket, last module of contexts/ThemeContext.tsx)\<close>

text \<open>
  \<open>WebSocketMessageType\<close> is a string enum; an inbound message is cast without a check,
  so the type of a message is a string.  \<open>Date.now()\<close> is the argument \<open>now\<close>.
\<close>

definition WORKFLOW_UPDATE :: string where "WORKFLOW_UPDATE = ''workflow_update''"
definition NODE_UPDATE :: string where "NODE_UPDATE = ''node_update''"
definition PREVIEW_REQUEST :: string where "PREVIEW_REQUEST = ''preview_request''"
definition PREVIEW_UPDATE :: string where "PREVIEW_UPDATE = ''preview_update''"
definition ERROR :: string where "ERROR = ''error''"
definition DOCUMENT_PROCESS :: string where "DOCUMENT_PROCESS = ''document_process''"
definition URL_PROCESS :: string where "URL_PROCESS = ''url_process''"
definition NOTION_PROCESS :: string where "NOTION_PROCESS = ''notion_process''"
definition CONFLUENCE_PROCESS :: string where "CONFLUENCE_PROCESS = ''confluence_process''"

record 'p WebSocketMessage =
  msg_type :: string
  msg_payload :: 'p
  timestamp :: int
  sessionId :: "string option"

definition createWebSocketMessage :: "int \<Rightarrow> string \<Rightarrow> 'p \<Rightarrow> string option \<Rightarrow> 'p WebSocketMessage" where
  "createWebSocketMessage now type p sid =
     \<lparr> msg_type = type, msg_payload = p, timestamp = now, sessionId = sid \<rparr>"

section \<open>The secure channel \<open>useSecureWebSocket\<close> and \<open>SecurityUtils\<close>\<close>

text \<open>
  The cipher (CryptoJS) and the JSON codec are not code of the repository: they are the
  fields of a \<open>runtime\<close> record.  \<open>CryptoJS.AES.encrypt\<close> draws a random salt, the first
  argument of \<open>aes_encrypt\<close>; \<open>None\<close> is a call that throws.  \<open>onMessage_throws\<close> tells
  whether the caller's \<open>onMessage\<close> raises on a message.
\<close>

record 'p runtime =
  aes_encrypt :: "nat \<Rightarrow> string \<Rightarrow> string \<Rightarrow> string option"
  aes_decrypt :: "string \<Rightarrow> string \<Rightarrow> string option"
  json_stringify :: "'p WebSocketMessage \<Rightarrow> string option"
  json_parse :: "string \<Rightarrow> 'p WebSocketMessage option"
  onMessage_throws :: "'p WebSocketMessage \<Rightarrow> bool"

definition encrypt :: "'p runtime \<Rightarrow> nat \<Rightarrow> string \<Rightarrow> string \<Rightarrow> string option" where
  "encrypt rt salt data key = aes_encrypt rt salt data key"

definition decrypt :: "'p runtime \<Rightarrow> string \<Rightarrow> string \<Rightarrow> string option" where
  "decrypt rt encryptedData key = aes_decrypt rt encryptedData key"

text \<open>
  The hook's refs and options, and traces of what it does: the ciphertexts handed to
  \<open>ws.send\<close>, the calls of \<open>onMessage\<close>, \<open>onError\<close>, \<open>onConnect\<close> and \<open>onDisconnect\<close> (each
  is optional in the source: a call of an absent callback has no effect), and the timers
  set.
\<close>

record 'p secure_hook =
  sec_urlValid :: bool
  encryptionKey :: string
  sec_ws :: "ready_state option"
  sec_reconnectTimeout :: "nat option"
  frames :: "string list"
  delivered :: "'p WebSocketMessage list"
  errors :: "string list"
  connects :: nat
  disconnects :: nat
  sec_timers :: "nat list"

definition sec_init :: "bool \<Rightarrow> string \<Rightarrow> 'p secure_hook" where
  "sec_init ok key =
     \<lparr> sec_urlValid = ok, encryptionKey = key, sec_ws = None, sec_reconnectTimeout = None,
       frames = [], delivered = [], errors = [], connects = 0, disconnects = 0,
       sec_timers = [] \<rparr>"

definition sec_connect :: "'p secure_hook \<Rightarrow> 'p secure_hook" where
  "sec_connect s =
     (if sec_urlValid s then s\<lparr>sec_ws := Some CONNECTING\<rparr>
      else s\<lparr>errors := errors s @ [''Failed to establish WebSocket connection'']\<rparr>)"

definition sec_onopen :: "'p secure_hook \<Rightarrow> 'p secure_hook" where
  "sec_onopen s = s\<lparr>connects := Suc (connects s)\<rparr>"

definition sec_onclose :: "'p secure_hook \<Rightarrow> 'p secure_hook" where
  "sec_onclose s =
     s\<lparr>disconnects := Suc (disconnects s), sec_reconnectTimeout := Some 3000,
       sec_timers := sec_timers s @ [3000]\<rparr>"

definition sec_onerror :: "'p secure_hook \<Rightarrow> 'p secure_hook" where
  "sec_onerror s = s\<lparr>errors := errors s @ [''WebSocket error occurred'']\<rparr>"

definition process_failed :: "'p secure_hook \<Rightarrow> 'p secure_hook" where
  "process_failed s = s\<lparr>errors := errors s @ [''Failed to process message'']\<rparr>"

definition sec_onmessage :: "'p runtime \<Rightarrow> string \<Rightarrow> 'p secure_hook \<Rightarrow> 'p secure_hook" where
  "sec_onmessage rt data s =
     (case decrypt rt data (encryptionKey s) of
        None \<Rightarrow> process_failed s
      | Some decryptedData \<Rightarrow>
          (case json_parse rt decryptedData of
             None \<Rightarrow> process_failed s
           | Some message \<Rightarrow>
               (let s1 = s\<lparr>delivered := delivered s @ [message]\<rparr>
                in if onMessage_throws rt message then process_failed s1 else s1)))"

definition sec_disconnect :: "'p secure_hook \<Rightarrow> 'p secure_hook" where
  "sec_disconnect s =
     s\<lparr>sec_reconnectTimeout := None, sec_ws := map_option socket_close (sec_ws s)\<rparr>"

definition sec_sendMessage :: "'p runtime \<Rightarrow> nat \<Rightarrow> 'p WebSocketMessage \<Rightarrow> 'p secure_hook \<Rightarrow> 'p secure_hook" where
  "sec_sendMessage rt salt message s =
     (if sec_ws s = Some OPEN
      then (case json_stringify rt message of
              None \<Rightarrow> s\<lparr>errors := errors s @ [''Failed to send message'']\<rparr>
            | Some str \<Rightarrow>
                (case encrypt rt salt str (encryptionKey s) of
                   None \<Rightarrow> s\<lparr>errors := errors s @ [''Failed to send message'']\<rparr>
                 | Some encryptedData \<Rightarrow> s\<lparr>frames := frames s @ [encryptedData]\<rparr>))
      else s\<lparr>errors := errors s @ [''WebSocket is not connected'']\<rparr>)"

text \<open>Everything that can happen to the hook, and a run of such events.\<close>

datatype 'p sec_event =
    SecOpens
  | SecCloses
  | SecError
  | SecMessage string
  | SecTimer
  | SecSend nat "'p WebSocketMessage"
  | SecDisconnect

fun sec_step :: "'p runtime \<Rightarrow> 'p secure_hook \<Rightarrow> 'p sec_event \<Rightarrow> 'p secure_hook" where
  "sec_step rt s SecOpens = sec_onopen (s\<lparr>sec_ws := Some OPEN\<rparr>)"
| "sec_step rt s SecCloses = sec_onclose (s\<lparr>sec_ws := Some CLOSED\<rparr>)"
| "sec_step rt s SecError = sec_onerror s"
| "sec_step rt s (SecMessage data) = sec_onmessage rt data s"
| "sec_step rt s SecTimer = sec_connect s"
| "sec_step rt s (SecSend salt message) = sec_sendMessage rt salt message s"
| "sec_step rt s SecDisconnect = sec_disconnect s"

definition sec_run :: "'p runtime \<Rightarrow> 'p sec_event list \<Rightarrow> 'p secure_hook \<Rightarrow> 'p secure_hook" where
  "sec_run rt evs s = foldl (sec_step rt) s evs"

text \<open>
  Two states of the hook that differ at most in the trace of \<open>onError\<close> calls.
\<close>

definition same_but_errors :: "'p secure_hook \<Rightarrow> 'p secure_hook \<Rightarrow> bool" where
  "same_but_errors s t = (s\<lparr>errors := []\<rparr> = t\<lparr>errors := []\<rparr>)"

text \<open>
  A runtime to run the hook on: a cipher that puts one character in front of the text
  and fails to decrypt the empty frame, a codec that keeps the type of a message.
\<close>

definition example_runtime :: "unit runtime" where
  "example_runtime =
     \<lparr> aes_encrypt = (\<lambda>salt d key. Some (CHR ''#'' # d)),
       aes_decrypt = (\<lambda>c key. case c of [] \<Rightarrow> None | x # d \<Rightarrow> Some d),
       json_stringify = (\<lambda>m. Some (CHR ''{'' # msg_type m)),
       json_parse = (\<lambda>str. case str of [] \<Rightarrow> None
                      | x # t \<Rightarrow> Some \<lparr> msg_type = t, msg_payload = (), timestamp = 0, sessionId = None \<rparr>),
       onMessage_throws = (\<lambda>m. False) \<rparr>"

section \<open>The JSON codec of the JavaScript runtime\<close>



text \<open>
  Writing.  An integer is written in decimal digits, as the runtime writes the integers
  a double holds exactly.  A string is quoted with the escapes of \<open>QuoteJSONString\<close>: the quote, the
  backslash, the short escapes of five control characters, the four-digit hexadecimal
  escape for the other characters below 0x20, every other byte as it is.  \<open>NaN\<close> and the infinities are
  written \<open>null\<close>; \<open>undefined\<close> has no text: as an array element it is written \<open>null\<close>, as
  the value of a property the property is left out.
\<close>

definition QUOTE :: char where "QUOTE = CHR 0x22"
definition BACKSLASH :: char where "BACKSLASH = CHR 0x5C"







definition hex_char :: "nat \<Rightarrow> char" where
  "hex_char d = ''0123456789abcdef'' ! d"

definition escape :: "char \<Rightarrow> string" where
  "escape c =
     (if c = QUOTE then [BACKSLASH, QUOTE]
      else if c = BACKSLASH then [BACKSLASH, BACKSLASH]
      else if c = CHR 0x08 then [BACKSLASH, CHR ''b'']
      else if c = CHR 0x09 then [BACKSLASH, CHR ''t'']
      else if c = CHR 0x0A then [BACKSLASH, CHR ''n'']
      else if c = CHR 0x0C then [BACKSLASH, CHR ''f'']
      else if c = CHR 0x0D then [BACKSLASH, CHR ''r'']
      else if (of_char c :: nat) < 32
        then [BACKSLASH, CHR ''u'', CHR ''0'', CHR ''0'',
              hex_char (of_char c div 16), hex_char (of_char c mod 16)]
      else [c])"

definition quote :: "string \<Rightarrow> string" where
  "quote s = QUOTE # concat (map escape s) @ [QUOTE]"



text \<open>
  Reading.  White space between tokens is skipped.  A number with a fraction or an
  exponent, and a hexadecimal escape of a character above 0x7f, are outside the model: the
  result is \<open>None\<close> there; \<open>-0\<close> is read as 0.  A key that occurs again replaces the
  value of its first occurrence.  The recursion on nested arrays and objects is bounded by
  a counter that \<open>parse_text\<close> starts at the length of the text.
\<close>

definition is_space :: "char \<Rightarrow> bool" where
  "is_space c \<longleftrightarrow> c = CHR 0x20 \<or> c = CHR 0x09 \<or> c = CHR 0x0A \<or> c = CHR 0x0D"

definition skip :: "string \<Rightarrow> string" where
  "skip s = dropWhile is_space s"

definition hex_val :: "char \<Rightarrow> nat option" where
  "hex_val c =
     (let n = (of_char c :: nat)
      in if 48 \<le> n \<and> n \<le> 57 then Some (n - 48)
         else if 97 \<le> n \<and> n \<le> 102 then Some (n - 87)
         else if 65 \<le> n \<and> n \<le> 70 then Some (n - 55)
         else None)"

definition hex4 :: "char \<Rightarrow> char \<Rightarrow> char \<Rightarrow> char \<Rightarrow> nat option" where
  "hex4 a b c d =
     (case (hex_val a, hex_val b, hex_val c, hex_val d) of
        (Some w, Some x, Some y, Some z) \<Rightarrow> Some (4096 * w + 256 * x + 16 * y + z)
      | _ \<Rightarrow> None)"

definition unescape :: "char \<Rightarrow> char option" where
  "unescape e =
     (if e = QUOTE then Some QUOTE
      else if e = BACKSLASH then Some BACKSLASH
      else if e = CHR ''/'' then Some CHR ''/''
      else if e = CHR ''b'' then Some (CHR 0x08)
      else if e = CHR ''t'' then Some (CHR 0x09)
      else if e = CHR ''n'' then Some (CHR 0x0A)
      else if e = CHR ''f'' then Some (CHR 0x0C)
      else if e = CHR ''r'' then Some (CHR 0x0D)
      else None)"

definition consed :: "char \<Rightarrow> (string \<times> string) option \<Rightarrow> (string \<times> string) option" where
  "consed c r = map_option (\<lambda>(str, rest). (c # str, rest)) r"

fun unquote :: "string \<Rightarrow> (string \<times> string) option" where
  "unquote [] = None"
| "unquote [c] = (if c = QUOTE then Some ([], []) else None)"
| "unquote (c # e # r) =
     (if c = QUOTE then Some ([], e # r)
      else if c = BACKSLASH
        then (if e = CHR ''u''
              then (case r of
                      h1 # h2 # h3 # h4 # r' \<Rightarrow>
                        (case hex4 h1 h2 h3 h4 of
                           None \<Rightarrow> None
                         | Some n \<Rightarrow> if n < 128 then consed (char_of n) (unquote r') else None)
                    | _ \<Rightarrow> None)
              else (case unescape e of None \<Rightarrow> None | Some c' \<Rightarrow> consed c' (unquote r)))
      else if (of_char c :: nat) < 32 then None
      else consed c (unquote (e # r)))"




















section \<open>\<open>NodePreviewHandler\<close>\<close>

text \<open>
  The component of one node: its props, its \<open>preview\<close> state and the envelopes it passes
  to \<open>sendMessage\<close>.  It gives the secure hook no \<open>onError\<close>, so a send that fails leaves
  the component as it is and the \<open>catch\<close> of \<open>requestPreview\<close> is never entered.
\<close>

datatype status = Idle | Loading | Success | Error

record 'd preview_payload =
  nodeId :: "string option"
  error_text :: "string option"
  content :: 'd

record 'd PreviewState =
  preview_status :: status
  preview_data :: "'d preview_payload option"
  preview_error :: "string option"

record 'd PreviewRequest =
  req_nodeId :: string
  req_nodeType :: string
  req_data :: 'd

record 'd NodePreviewHandler =
  prop_nodeId :: string
  prop_nodeType :: string
  prop_data :: 'd
  preview :: "'d PreviewState"
  isVisible :: bool
  requests :: "'d PreviewRequest WebSocketMessage list"

definition nph_init :: "string \<Rightarrow> string \<Rightarrow> 'd \<Rightarrow> 'd NodePreviewHandler" where
  "nph_init nid ntype d =
     \<lparr> prop_nodeId = nid, prop_nodeType = ntype, prop_data = d,
       preview = \<lparr> preview_status = Idle, preview_data = None, preview_error = None \<rparr>,
       isVisible = False, requests = [] \<rparr>"

definition nph_onMessage :: "'d preview_payload WebSocketMessage \<Rightarrow> 'd NodePreviewHandler \<Rightarrow> 'd NodePreviewHandler" where
  "nph_onMessage message c =
     (if msg_type message = PREVIEW_UPDATE
      then (if nodeId (msg_payload message) = Some (prop_nodeId c)
            then c\<lparr>preview := \<lparr> preview_status = Success,
                                preview_data = Some (msg_payload message),
                                preview_error = None \<rparr>\<rparr>
            else c)
      else if msg_type message = ERROR
      then (if nodeId (msg_payload message) = Some (prop_nodeId c)
            then c\<lparr>preview := \<lparr> preview_status = Error, preview_data = None,
                                preview_error = error_text (msg_payload message) \<rparr>\<rparr>
            else c)
      else c)"

definition requestPreview :: "int \<Rightarrow> 'd NodePreviewHandler \<Rightarrow> 'd NodePreviewHandler" where
  "requestPreview now c =
     c\<lparr>isVisible := True,
       preview := \<lparr> preview_status = Loading, preview_data = None, preview_error = None \<rparr>,
       requests := requests c @
         [createWebSocketMessage now PREVIEW_REQUEST
            \<lparr> req_nodeId = prop_nodeId c, req_nodeType = prop_nodeType c,
              req_data = prop_data c \<rparr> None]\<rparr>"

section \<open>\<open>DragDropCanvas\<close>\<close>

text \<open>
  The canvas gets the node list as a prop and owns the \<open>previewData\<close> dictionary.  It
  never changes the node list itself: it hands a new list to the parent's
  \<open>onNodesChange\<close>, and what the parent does with it is not code of the component.  The
  model records the lists handed over and the messages sent.  Edges live in the
  \<open>connections\<close> of their source node.
\<close>

record Position =
  pos_x :: rat
  pos_y :: rat

record 'd Node =
  node_id :: string
  node_type :: string
  position :: Position
  node_data :: 'd
  connections :: "string list"

datatype canvas_message = node_moved string Position | node_deleted string

record ('d, 'v) canvas =
  nodes :: "'d Node list"
  previewData :: "string \<Rightarrow> 'v option"
  onNodesChange_calls :: "'d Node list list"
  canvas_sent :: "canvas_message list"

definition handleNodeDrag :: "string \<Rightarrow> Position \<Rightarrow> ('d, 'v) canvas \<Rightarrow> ('d, 'v) canvas" where
  "handleNodeDrag nid newPosition c =
     (let updatedNodes =
            map (\<lambda>node. if node_id node = nid then node\<lparr>position := newPosition\<rparr> else node)
              (nodes c)
      in c\<lparr>onNodesChange_calls := onNodesChange_calls c @ [updatedNodes],
           canvas_sent := canvas_sent c @ [node_moved nid newPosition]\<rparr>)"

definition handlePreviewUpdate :: "string \<Rightarrow> 'v \<Rightarrow> ('d, 'v) canvas \<Rightarrow> ('d, 'v) canvas" where
  "handlePreviewUpdate nid d c = c\<lparr>previewData := (previewData c)(nid \<mapsto> d)\<rparr>"

text \<open>The \<open>onClick\<close> of the delete button of the node with id \<open>nid\<close>.\<close>

definition delete_node_click :: "string \<Rightarrow> ('d, 'v) canvas \<Rightarrow> ('d, 'v) canvas" where
  "delete_node_click nid c =
     (let updatedNodes = filter (\<lambda>n. node_id n \<noteq> nid) (nodes c)
      in c\<lparr>onNodesChange_calls := onNodesChange_calls c @ [updatedNodes],
           canvas_sent := canvas_sent c @ [node_deleted nid]\<rparr>)"

text \<open>The edges a node list stores: one for every entry of a node's \<open>connections\<close>.\<close>

definition stored_edges :: "'d Node list \<Rightarrow> (string \<times> string) list" where
  "stored_edges ns = concat (map (\<lambda>sourceNode. map (Pair (node_id sourceNode)) (connections sourceNode)) ns)"

section \<open>The singleton \<open>WebSocketClient\<close> (utils/websocketClient.ts) and its provider\<close>

datatype client_log =
    LogConnected
  | LogDisconnected
  | LogConnectionError
  | LogReconnectIn nat nat
  | LogMaxReached
  | LogNotConnected

record ws_client =
  client_ws :: "(string \<times> ready_state) option"
  reconnectAttempts :: nat
  client_timers :: "nat list"
  client_console :: "client_log list"
  client_sent :: "string list"
  onConnect_calls :: nat
  onDisconnect_calls :: nat

definition maxReconnectAttempts :: nat where
  "maxReconnectAttempts = 5"

definition reconnectDelay :: nat where
  "reconnectDelay = 1000"

definition client_init :: ws_client where
  "client_init =
     \<lparr> client_ws = None, reconnectAttempts = 0, client_timers = [], client_console = [],
       client_sent = [], onConnect_calls = 0, onDisconnect_calls = 0 \<rparr>"

definition handleReconnect :: "ws_client \<Rightarrow> ws_client" where
  "handleReconnect c =
     (if reconnectAttempts c < maxReconnectAttempts
      then (let n = reconnectAttempts c + 1;
                delay = reconnectDelay * 2 ^ (n - 1)
            in c\<lparr>reconnectAttempts := n,
                 client_console := client_console c @ [LogReconnectIn delay n],
                 client_timers := client_timers c @ [delay]\<rparr>)
      else c\<lparr>client_console := client_console c @ [LogMaxReached]\<rparr>)"

text \<open>\<open>connect(url)\<close>; \<open>valid url\<close> tells whether \<open>new WebSocket(url)\<close> returns.\<close>

definition client_connect :: "(string \<Rightarrow> bool) \<Rightarrow> string \<Rightarrow> ws_client \<Rightarrow> ws_client" where
  "client_connect valid url c =
     (if valid url then c\<lparr>client_ws := Some (url, CONNECTING)\<rparr>
      else handleReconnect (c\<lparr>client_console := client_console c @ [LogConnectionError]\<rparr>))"

definition client_send :: "string \<Rightarrow> ws_client \<Rightarrow> ws_client" where
  "client_send type c =
     (case client_ws c of
        Some (url, OPEN) \<Rightarrow> c\<lparr>client_sent := client_sent c @ [type]\<rparr>
      | _ \<Rightarrow> c\<lparr>client_console := client_console c @ [LogNotConnected]\<rparr>)"

definition client_onopen :: "ws_client \<Rightarrow> ws_client" where
  "client_onopen c =
     (let c1 = c\<lparr>client_console := client_console c @ [LogConnected], reconnectAttempts := 0\<rparr>;
          c2 = client_send ''client_metadata'' c1
      in c2\<lparr>onConnect_calls := Suc (onConnect_calls c2)\<rparr>)"

definition client_onclose :: "ws_client \<Rightarrow> ws_client" where
  "client_onclose c =
     handleReconnect
       (c\<lparr>client_console := client_console c @ [LogDisconnected],
          onDisconnect_calls := Suc (onDisconnect_calls c)\<rparr>)"

text \<open>The callback of the reconnect timer: \<open>if (this.ws?.url) this.connect(this.ws.url)\<close>.\<close>

definition client_timer :: "(string \<Rightarrow> bool) \<Rightarrow> ws_client \<Rightarrow> ws_client" where
  "client_timer valid c =
     (case client_ws c of
        None \<Rightarrow> c
      | Some (url, r) \<Rightarrow> if url \<noteq> [] then client_connect valid url c else c)"

definition client_disconnect :: "ws_client \<Rightarrow> ws_client" where
  "client_disconnect c = (case client_ws c of None \<Rightarrow> c | Some w \<Rightarrow> c\<lparr>client_ws := None\<rparr>)"

definition set_readyState :: "ready_state \<Rightarrow> ws_client \<Rightarrow> ws_client" where
  "set_readyState r c = c\<lparr>client_ws := map_option (\<lambda>(url, r'). (url, r)) (client_ws c)\<rparr>"

datatype client_event =
    ClientConnect string
  | ClientOpens
  | ClientCloses
  | ClientTimer
  | ClientSend string
  | ClientDisconnect

fun client_step :: "(string \<Rightarrow> bool) \<Rightarrow> ws_client \<Rightarrow> client_event \<Rightarrow> ws_client" where
  "client_step valid c (ClientConnect url) = client_connect valid url c"
| "client_step valid c ClientOpens = client_onopen (set_readyState OPEN c)"
| "client_step valid c ClientCloses = client_onclose (set_readyState CLOSED c)"
| "client_step valid c ClientTimer = client_timer valid c"
| "client_step valid c (ClientSend type) = client_send type c"
| "client_step valid c ClientDisconnect = client_disconnect c"

definition client_run :: "(string \<Rightarrow> bool) \<Rightarrow> client_event list \<Rightarrow> ws_client \<Rightarrow> ws_client" where
  "client_run valid evs c = foldl (client_step valid) c evs"

text \<open>
  \<open>handleMessage\<close> of \<open>WebSocketProvider\<close> (second module of components/UrlInput.tsx): the
  window events it dispatches and the console lines, by the type of the message and
  its \<open>data\<close> (\<open>None\<close> when \<open>message.data\<close> is \<open>undefined\<close> or \<open>null\<close>).  The case
  \<open>document_processed\<close> destructures \<open>message.data\<close> first and throws a \<open>TypeError\<close> when
  there is none: the result is then \<open>None\<close>.
\<close>

datatype provider_effect = DispatchEvent string | ConsoleError string | ConsoleLog string

definition handleMessage :: "string \<Rightarrow> 'd option \<Rightarrow> provider_effect list option" where
  "handleMessage type d =
     (if type = ''document_processed''
      then (case d of None \<Rightarrow> None | Some x \<Rightarrow> Some [DispatchEvent ''documentProcessed''])
      else if type = ''workflow_updated'' then Some [DispatchEvent ''workflowUpdated'']
      else if type = ''element_updated'' then Some [DispatchEvent ''elementUpdated'']
      else if type = ''error'' then Some [ConsoleError ''WebSocket error:'', DispatchEvent ''wsError'']
      else Some [ConsoleLog ''Received message:''])"

section \<open>Properties of \<open>useWebSocket\<close>: reconnect delay\<close>

text \<open>
  Claim C1 says that after an unclean close the reconnect is scheduled after the current
  \<open>retryDelay\<close> and that \<open>retryDelay\<close> grows only afterwards, so that the first
  reconnect comes after 1000 ms.  In \<open>onclose\<close> the new delay is computed and stored
  first and the timer is set with the new value: from the mounted hook, whose
  \<open>retryDelay\<close> is 1000, the first reconnect is scheduled after 1500 ms.
\<close>

theorem reconnect_not_after_current_delay:
  "retryDelay (mounted :: unit ws_hook) = 1000 \<and>
   timers (socket_closes False (mounted :: unit ws_hook)) = [1500] \<and>
   timers (socket_closes False (mounted :: unit ws_hook)) \<noteq> [retryDelay (mounted :: unit ws_hook)]"
  by (simp add: mounted_def hook_init_def connect_def socket_closes_def onclose_def
      INITIAL_RETRY_DELAY_def MAX_RETRY_DELAY_def RETRY_MULTIPLIER_def Let_def)

text \<open>
  C1 as the code has it: on every unclean close the hook clears \<open>isConnected\<close>, computes
  \<open>min (retryDelay * 1.5) 30000\<close>, stores it in \<open>retryDelay\<close> and schedules the reconnect
  after that same, already updated, delay, which never exceeds 30000 ms.  A clean close
  schedules nothing and keeps \<open>retryDelay\<close>.  From the mounted hook two unclean closes
  in a row (the timer firing in between) schedule reconnects after 1500 ms and 2250 ms.
\<close>

theorem reconnect_scheduled_after_updated_delay:
  "timers (onclose False s) = timers s @ [min (retryDelay s * RETRY_MULTIPLIER) MAX_RETRY_DELAY] \<and>
   reconnectTimeout (onclose False s) = Some (min (retryDelay s * RETRY_MULTIPLIER) MAX_RETRY_DELAY) \<and>
   retryDelay (onclose False s) = min (retryDelay s * RETRY_MULTIPLIER) MAX_RETRY_DELAY \<and>
   retryDelay (onclose False s) \<le> MAX_RETRY_DELAY \<and>
   \<not> isConnected (onclose False s) \<and>
   timers (onclose True s) = timers s \<and> retryDelay (onclose True s) = retryDelay s \<and>
   timers (socket_closes False (timer_fires (socket_closes False (mounted :: 'p ws_hook)))) = [1500, 2250]"
  by (simp add: mounted_def hook_init_def connect_def socket_closes_def onclose_def timer_fires_def
      INITIAL_RETRY_DELAY_def MAX_RETRY_DELAY_def RETRY_MULTIPLIER_def Let_def)

theorem reconnect_scheduled_after_updated_delay_witness:
  "timers (onclose False (mounted :: unit ws_hook)) = [1500] \<and>
   retryDelay (onclose False (mounted :: unit ws_hook)) = 1500"
proof -
  let ?m = "mounted :: unit ws_hook"
  have m: "timers ?m = []" "retryDelay ?m = 1000"
    by (simp_all add: mounted_def hook_init_def connect_def INITIAL_RETRY_DELAY_def)
  from reconnect_scheduled_after_updated_delay [of ?m]
  have "timers (onclose False ?m) = timers ?m @ [min (retryDelay ?m * RETRY_MULTIPLIER) MAX_RETRY_DELAY]"
    and "retryDelay (onclose False ?m) = min (retryDelay ?m * RETRY_MULTIPLIER) MAX_RETRY_DELAY"
    by blast+
  then show ?thesis
    by (simp add: m MAX_RETRY_DELAY_def RETRY_MULTIPLIER_def)
qed

section \<open>Properties of \<open>useWebSocket\<close>: the pending queue\<close>












section \<open>Properties of \<open>useWebSocket\<close>: dispatch\<close>

lemma dispatch_fields:
  "invoked (dispatch throws m hs s) = invoked s @ map (\<lambda>h. (h, payload m)) hs"
  "console (dispatch throws m hs s) =
     console s @ map (\<lambda>h. handler_error_line (mtype m)) (filter (\<lambda>h. throws h (payload m)) hs)"
  "eventHandlers (dispatch throws m hs s) = eventHandlers s"
  "error (dispatch throws m hs s) = error s"
  by (induction hs arbitrary: s; simp add: Let_def)+

lemma onmessage_dispatches:
  "parse data = Some m \<Longrightarrow> mtype m \<noteq> [] \<Longrightarrow>
   onmessage parse throws data s = dispatch throws m (registered s (mtype m)) s"
  by (simp add: onmessage_def registered_def split: option.splits)

text \<open>
  Claim C5.  For a frame that parses to a message with a type: the handlers invoked are
  exactly the handlers registered for that type, each with the payload of the message,
  in the order of the set, whether or not any of them throws; each throwing handler adds
  one console line and the \<open>error\<close> state is untouched; a handler that is not registered
  for the type (one registered for another type only, say) is not invoked.  The order of
  the set is the order of registration: \<open>on\<close> appends a handler that is not a member
  and changes nothing for a member or for another type, and \<open>off\<close> removes the handler.
\<close>

theorem dispatch_invokes_registered_handlers:
  assumes "parse data = Some message" and "mtype message \<noteq> []"
  shows "invoked (onmessage parse throws data s) =
           invoked s @ map (\<lambda>h. (h, payload message)) (registered s (mtype message)) \<and>
         console (onmessage parse throws data s) =
           console s @ map (\<lambda>h. handler_error_line (mtype message))
             (filter (\<lambda>h. throws h (payload message)) (registered s (mtype message))) \<and>
         error (onmessage parse throws data s) = error s \<and>
         (\<forall>h p. h \<notin> set (registered s (mtype message)) \<longrightarrow>
            (h, p) \<notin> set (drop (length (invoked s)) (invoked (onmessage parse throws data s)))) \<and>
         registered (on type h s) type =
           (if h \<in> set (registered s type) then registered s type else registered s type @ [h]) \<and>
         (\<forall>type'. type' \<noteq> type \<longrightarrow> registered (on type h s) type' = registered s type') \<and>
         registered (off type h s) type = removeAll h (registered s type)"
proof -
  have od: "onmessage parse throws data s = dispatch throws message (registered s (mtype message)) s"
    using assms by (rule onmessage_dispatches)
  have "\<forall>h p. h \<notin> set (registered s (mtype message)) \<longrightarrow>
            (h, p) \<notin> set (drop (length (invoked s)) (invoked (onmessage parse throws data s)))"
    by (auto simp add: od dispatch_fields)
  moreover have "registered (on type h s) type =
           (if h \<in> set (registered s type) then registered s type else registered s type @ [h])"
    by (simp add: on_def registered_def Let_def)
  moreover have "\<forall>type'. type' \<noteq> type \<longrightarrow> registered (on type h s) type' = registered s type'"
    by (simp add: on_def registered_def Let_def)
  moreover have "registered (off type h s) type = removeAll h (registered s type)"
    by (simp add: off_def registered_def split: option.splits)
  ultimately show ?thesis
    by (simp add: od dispatch_fields)
qed

theorem dispatch_invokes_registered_handlers_witness:
  "invoked (onmessage (\<lambda>d. Some \<lparr>mtype = ''preview_update'', payload = (7 :: nat)\<rparr>)
      (\<lambda>h p. h = 10) ''frame''
      (on ''preview_update'' 20 (on ''error'' 30 (on ''preview_update'' 10 (mounted :: nat ws_hook)))))
     = [(10, 7), (20, 7)] \<and>
   console (onmessage (\<lambda>d. Some \<lparr>mtype = ''preview_update'', payload = (7 :: nat)\<rparr>)
      (\<lambda>h p. h = 10) ''frame''
      (on ''preview_update'' 20 (on ''error'' 30 (on ''preview_update'' 10 (mounted :: nat ws_hook)))))
     = [handler_error_line ''preview_update'']"
proof -
  let ?s = "on ''preview_update'' 20 (on ''error'' 30 (on ''preview_update'' 10 (mounted :: nat ws_hook)))"
  let ?msg = "\<lparr>mtype = ''preview_update'', payload = (7 :: nat)\<rparr>"
  have r: "registered ?s ''preview_update'' = [10, 20]" "invoked ?s = []" "console ?s = []"
    by (simp_all add: registered_def on_def mounted_def hook_init_def connect_def Let_def)
  have p: "(\<lambda>d :: string. Some ?msg) ''frame'' = Some ?msg" "mtype ?msg \<noteq> []"
    by simp_all
  from dispatch_invokes_registered_handlers
    [where parse = "\<lambda>d. Some ?msg" and data = "''frame''" and message = ?msg
      and throws = "\<lambda>h p. h = 10" and s = ?s and type = "''error''" and h = 30] p
  show ?thesis
    by (simp add: r)
qed

section \<open>Properties of \<open>useWebSocket\<close>: a type without a handler\<close>

text \<open>
  Claim C8 says that a message whose type has no registered handler is logged.  In
  \<open>onmessage\<close> the branch for a registry entry that is absent does nothing: on the mounted
  hook, where no handler is registered, a message of type \<open>unknown_type\<close> leaves the
  console empty.
\<close>

theorem unhandled_type_not_logged:
  "eventHandlers (mounted :: unit ws_hook) ''unknown_type'' = None \<and>
   console (onmessage (\<lambda>d. Some \<lparr>mtype = ''unknown_type'', payload = ()\<rparr>) (\<lambda>h p. False)
              ''frame'' (mounted :: unit ws_hook)) = []"
  by (simp add: mounted_def hook_init_def connect_def onmessage_def)

text \<open>
  C8 as the code has it: a message with a type for which no handler is registered
  leaves the hook exactly as it was: no handler is invoked, no error is set and no
  console line is written.  The one default path that logs is in \<open>handleMessage\<close> of
  \<open>WebSocketProvider\<close>: a type outside its four cases is written with \<open>console.log\<close> and
  nothing else happens, whatever the data of the message.
\<close>

theorem unhandled_type_ignored_without_log:
  assumes "parse data = Some message" and "mtype message \<noteq> []"
    and "registered s (mtype message) = []"
  shows "onmessage parse throws data s = s \<and>
         (\<forall>type d. type \<notin> {''document_processed'', ''workflow_updated'', ''element_updated'', ''error''}
            \<longrightarrow> handleMessage type (d :: 'd option) = Some [ConsoleLog ''Received message:''])"
  using assms by (simp add: onmessage_dispatches handleMessage_def)

theorem unhandled_type_ignored_without_log_witness:
  "onmessage (\<lambda>d. Some \<lparr>mtype = ''unknown_type'', payload = ()\<rparr>) (\<lambda>h p. False) ''frame''
      (on ''error'' 30 (mounted :: unit ws_hook)) = on ''error'' 30 (mounted :: unit ws_hook) \<and>
   handleMessage ''unknown_type'' (Some ()) = Some [ConsoleLog ''Received message:'']"
proof -
  let ?s = "on ''error'' 30 (mounted :: unit ws_hook)"
  let ?msg = "\<lparr>mtype = ''unknown_type'', payload = ()\<rparr>"
  have p: "(\<lambda>d :: string. Some ?msg) ''frame'' = Some ?msg" "mtype ?msg \<noteq> []"
    "registered ?s (mtype ?msg) = []"
    by (simp_all add: registered_def on_def mounted_def hook_init_def connect_def Let_def)
  from unhandled_type_ignored_without_log
    [where ?'d = unit and parse = "\<lambda>d. Some ?msg" and data = "''frame''" and message = ?msg
      and s = ?s and throws = "\<lambda>h p. False"] p
  show ?thesis
    by simp
qed

section \<open>Properties of the JSON codec\<close>

subsection \<open>Numbers are read back\<close>


lemma below_16: "d < 16 \<Longrightarrow> d \<in> {0, 1, 2, 3, 4, 5, 6, 7, 8, 9, 10, 11, 12, 13, 14, 15 :: nat}"
  by simp arith


lemma hex_val_hex_char: "d < 16 \<Longrightarrow> hex_val (hex_char d) = Some d"
  using below_16 [of d]
  by (auto simp add: hex_char_def hex_val_def)










subsection \<open>Strings are read back\<close>

lemma hex4_control:
  assumes "n < 32"
  shows "hex4 (CHR ''0'') (CHR ''0'') (hex_char (n div 16)) (hex_char (n mod 16)) = Some n"
proof -
  from assms have "n div 16 < 16" "n mod 16 < 16" by simp_all
  then have "hex_val (hex_char (n div 16)) = Some (n div 16)"
    "hex_val (hex_char (n mod 16)) = Some (n mod 16)"
    by (simp_all add: hex_val_hex_char)
  moreover have "hex_val (CHR ''0'') = Some 0" by (simp add: hex_val_def)
  ultimately show ?thesis by (simp add: hex4_def)
qed

lemma unquote_escape:
  assumes "unquote tail = Some (str, rest)"
  shows "unquote (escape c @ tail) = Some (c # str, rest)"
proof -
  from assms obtain e r where tail: "tail = e # r" by (cases tail) auto
  consider (quote) "c = QUOTE" | (backslash) "c = BACKSLASH"
    | (short) "c \<in> {CHR 0x08, CHR 0x09, CHR 0x0A, CHR 0x0C, CHR 0x0D}"
    | (control) "c \<noteq> QUOTE" "c \<noteq> BACKSLASH"
        "c \<notin> {CHR 0x08, CHR 0x09, CHR 0x0A, CHR 0x0C, CHR 0x0D}" "(of_char c :: nat) < 32"
    | (other) "c \<noteq> QUOTE" "c \<noteq> BACKSLASH" "\<not> (of_char c :: nat) < 32"
    by auto
  then show ?thesis
  proof cases
    case quote
    then show ?thesis
      using assms by (simp add: escape_def unescape_def consed_def QUOTE_def BACKSLASH_def)
  next
    case backslash
    then show ?thesis
      using assms by (simp add: escape_def unescape_def consed_def QUOTE_def BACKSLASH_def)
  next
    case short
    then show ?thesis
      using assms by (auto simp add: escape_def unescape_def consed_def QUOTE_def BACKSLASH_def)
  next
    case control
    then have esc: "escape c = [BACKSLASH, CHR ''u'', CHR ''0'', CHR ''0'',
              hex_char (of_char c div 16), hex_char (of_char c mod 16)]"
      by (simp add: escape_def)
    from control(4) have "(of_char c :: nat) < 128" by simp
    then show ?thesis
      using assms hex4_control [OF control(4)]
      by (simp add: esc consed_def QUOTE_def BACKSLASH_def)
  next
    case other
    then have esc: "escape c = [c]"
      by (auto simp add: escape_def)
    from other show ?thesis
      using assms by (simp add: esc tail consed_def)
  qed
qed

lemma unquote_escaped:
  "unquote (concat (map escape s) @ QUOTE # rest) = Some (s, rest)"
proof (induction s)
  case Nil
  then show ?case by (cases rest) simp_all
next
  case (Cons c s)
  then show ?case by (simp add: unquote_escape)
qed

lemma unquote_quote: "unquote (tl (quote s) @ rest) = Some (s, rest)"
  by (simp add: quote_def unquote_escaped)

subsection \<open>Values are read back\<close>








lemma skip_start: "s \<noteq> [] \<Longrightarrow> \<not> is_space (hd s) \<Longrightarrow> skip s = s"
  by (cases s) (simp_all add: skip_def)




















subsection \<open>Envelopes are read back\<close>



section \<open>Properties of the secure channel\<close>

lemma same_but_errors_iff:
  "same_but_errors s t \<longleftrightarrow> (\<exists>e. t = s\<lparr>errors := e\<rparr>)"
proof
  assume "same_but_errors s t"
  then have "t = s\<lparr>errors := errors t\<rparr>"
    by (cases s, cases t) (simp add: same_but_errors_def)
  then show "\<exists>e. t = s\<lparr>errors := e\<rparr>" ..
next
  assume "\<exists>e. t = s\<lparr>errors := e\<rparr>"
  then show "same_but_errors s t"
    by (auto simp add: same_but_errors_def)
qed

lemma sec_step_same:
  "same_but_errors (sec_step rt s ev) (sec_step rt (s\<lparr>errors := e\<rparr>) ev)"
  by (cases ev)
     (simp_all add: same_but_errors_def sec_onopen_def sec_onclose_def sec_onerror_def
        sec_onmessage_def sec_connect_def sec_sendMessage_def sec_disconnect_def
        process_failed_def Let_def split: option.splits)

lemma sec_run_same:
  "same_but_errors s t \<Longrightarrow> same_but_errors (sec_run rt evs s) (sec_run rt evs t)"
proof (induction evs arbitrary: s t)
  case Nil
  then show ?case by (simp add: sec_run_def)
next
  case (Cons ev evs)
  from Cons.prems obtain e where "t = s\<lparr>errors := e\<rparr>"
    by (auto simp add: same_but_errors_iff)
  then have "same_but_errors (sec_step rt s ev) (sec_step rt t ev)"
    by (simp add: sec_step_same)
  then have "same_but_errors (sec_run rt evs (sec_step rt s ev)) (sec_run rt evs (sec_step rt t ev))"
    by (rule Cons.IH)
  then show ?case by (simp add: sec_run_def)
qed

lemma same_but_errors_fields:
  "same_but_errors s t \<Longrightarrow>
   frames s = frames t \<and> delivered s = delivered t \<and> sec_ws s = sec_ws t \<and>
   sec_timers s = sec_timers t \<and> sec_reconnectTimeout s = sec_reconnectTimeout t"
  by (auto simp add: same_but_errors_iff)

text \<open>
  Claim C10.  When the socket of the secure channel is not open, \<open>sendMessage\<close> does one
  thing: it calls the error callback with \<open>WebSocket is not connected\<close>.  Nothing is
  stored: after any further events the hook is in the state it would be in had the call
  never been made, but for that one error, and in particular the frames transmitted are
  the same, so the message is never sent later.
\<close>

theorem send_while_not_open_discarded:
  assumes "sec_ws s \<noteq> Some OPEN"
  shows "sec_sendMessage rt salt message s = s\<lparr>errors := errors s @ [''WebSocket is not connected'']\<rparr> \<and>
         same_but_errors (sec_run rt evs s) (sec_run rt evs (sec_sendMessage rt salt message s)) \<and>
         frames (sec_run rt evs (sec_sendMessage rt salt message s)) = frames (sec_run rt evs s)"
proof -
  have eq: "sec_sendMessage rt salt message s = s\<lparr>errors := errors s @ [''WebSocket is not connected'']\<rparr>"
    using assms by (simp add: sec_sendMessage_def)
  then have "same_but_errors s (sec_sendMessage rt salt message s)"
    by (auto simp add: same_but_errors_iff)
  then have "same_but_errors (sec_run rt evs s) (sec_run rt evs (sec_sendMessage rt salt message s))"
    by (rule sec_run_same)
  with eq show ?thesis
    by (simp add: same_but_errors_fields)
qed

theorem send_while_not_open_discarded_witness:
  "errors (sec_sendMessage example_runtime 0 (createWebSocketMessage 0 PREVIEW_REQUEST () None)
      (sec_init True ''k'')) = [''WebSocket is not connected''] \<and>
   frames (sec_run example_runtime [SecOpens]
      (sec_sendMessage example_runtime 0 (createWebSocketMessage 0 PREVIEW_REQUEST () None)
        (sec_init True ''k''))) = []"
proof -
  let ?s = "sec_init True ''k'' :: unit secure_hook"
  have h: "sec_ws ?s \<noteq> Some OPEN" by (simp add: sec_init_def)
  have f: "frames (sec_run example_runtime [SecOpens] ?s) = []" "errors ?s = []"
    by (simp_all add: sec_run_def sec_onopen_def sec_init_def)
  let ?m = "createWebSocketMessage 0 PREVIEW_REQUEST () None"
  from send_while_not_open_discarded [OF h, of example_runtime 0 ?m "[SecOpens]"]
  have "sec_sendMessage example_runtime 0 ?m ?s = ?s\<lparr>errors := errors ?s @ [''WebSocket is not connected'']\<rparr>"
    and "frames (sec_run example_runtime [SecOpens] (sec_sendMessage example_runtime 0 ?m ?s)) =
         frames (sec_run example_runtime [SecOpens] ?s)"
    by blast+
  then show ?thesis by (simp add: f)
qed

text \<open>
  Claim C6.  When decrypting an inbound frame throws, or the decrypted text does not
  parse, \<open>onmessage\<close> does one thing: it calls the error callback with the fixed text
  \<open>Failed to process message\<close>, which contains nothing of the frame.  No message reaches
  \<open>onMessage\<close>, the socket, the timers and the transmitted frames are as before, and after
  any further events the hook is in the state it would be in had the frame never
  arrived, but for that one error.
\<close>

theorem undecodable_frame_dropped:
  assumes "decrypt rt data (encryptionKey s) = None \<or>
           (\<exists>d. decrypt rt data (encryptionKey s) = Some d \<and> json_parse rt d = None)"
  shows "sec_onmessage rt data s = s\<lparr>errors := errors s @ [''Failed to process message'']\<rparr> \<and>
         delivered (sec_onmessage rt data s) = delivered s \<and>
         same_but_errors (sec_run rt evs s) (sec_run rt evs (sec_onmessage rt data s))"
proof -
  have eq: "sec_onmessage rt data s = s\<lparr>errors := errors s @ [''Failed to process message'']\<rparr>"
    using assms by (auto simp add: sec_onmessage_def process_failed_def)
  then have "same_but_errors s (sec_onmessage rt data s)"
    by (auto simp add: same_but_errors_iff)
  then have "same_but_errors (sec_run rt evs s) (sec_run rt evs (sec_onmessage rt data s))"
    by (rule sec_run_same)
  with eq show ?thesis
    by simp
qed

theorem undecodable_frame_dropped_witness:
  "sec_onmessage example_runtime [] (sec_init True ''k'') =
     (sec_init True ''k'') \<lparr>errors := [''Failed to process message'']\<rparr> \<and>
   delivered (sec_onmessage example_runtime [] (sec_init True ''k'')) = []"
proof -
  let ?s = "sec_init True ''k'' :: unit secure_hook"
  have h: "decrypt example_runtime [] (encryptionKey ?s) = None \<or>
           (\<exists>d. decrypt example_runtime [] (encryptionKey ?s) = Some d \<and> json_parse example_runtime d = None)"
    by (simp add: decrypt_def example_runtime_def)
  have f: "errors ?s = []" "delivered ?s = []" by (simp_all add: sec_init_def)
  from undecodable_frame_dropped [OF h, of "[]"]
  have "sec_onmessage example_runtime [] ?s = ?s\<lparr>errors := errors ?s @ [''Failed to process message'']\<rparr>"
    and "delivered (sec_onmessage example_runtime [] ?s) = delivered ?s"
    by blast+
  then show ?thesis by (simp add: f)
qed




section \<open>Properties of \<open>NodePreviewHandler\<close>\<close>

text \<open>
  Claim C4.  A preview request puts the preview state of the component's node in
  \<open>loading\<close>.  A \<open>preview_update\<close> whose payload carries the node's id then makes it
  \<open>success\<close> with that payload as data.  A message whose payload carries another id, or
  none, leaves the component as it is, whatever its type.
\<close>

theorem preview_loading_then_success:
  "preview_status (preview (requestPreview now c)) = Loading \<and>
   prop_nodeId (requestPreview now c) = prop_nodeId c \<and>
   (msg_type m = PREVIEW_UPDATE \<and> nodeId (msg_payload m) = Some (prop_nodeId c) \<longrightarrow>
      preview (nph_onMessage m (requestPreview now c)) =
        \<lparr> preview_status = Success, preview_data = Some (msg_payload m), preview_error = None \<rparr>) \<and>
   (nodeId (msg_payload m) \<noteq> Some (prop_nodeId c) \<longrightarrow> nph_onMessage m c = c)"
  by (simp add: requestPreview_def nph_onMessage_def)

theorem preview_loading_then_success_witness:
  "preview_status (preview (requestPreview 0 (nph_init ''n1'' ''processor'' ()))) = Loading \<and>
   preview (nph_onMessage
       (createWebSocketMessage 5 PREVIEW_UPDATE \<lparr> nodeId = Some ''n1'', error_text = None, content = () \<rparr> None)
       (requestPreview 0 (nph_init ''n1'' ''processor'' ()))) =
     \<lparr> preview_status = Success,
       preview_data = Some \<lparr> nodeId = Some ''n1'', error_text = None, content = () \<rparr>,
       preview_error = None \<rparr>"
proof -
  let ?c = "nph_init ''n1'' ''processor'' ()"
  let ?m = "createWebSocketMessage 5 PREVIEW_UPDATE \<lparr> nodeId = Some ''n1'', error_text = None, content = () \<rparr> None"
  have h: "msg_type ?m = PREVIEW_UPDATE" "nodeId (msg_payload ?m) = Some (prop_nodeId ?c)"
    "msg_payload ?m = \<lparr> nodeId = Some ''n1'', error_text = None, content = () \<rparr>"
    by (simp_all add: createWebSocketMessage_def nph_init_def)
  from preview_loading_then_success [of 0 ?c ?m] h show ?thesis by simp
qed

section \<open>Properties of \<open>DragDropCanvas\<close>\<close>

lemma stored_edges_set:
  "e \<in> set (stored_edges ns) \<longleftrightarrow> (\<exists>src \<in> set ns. fst e = node_id src \<and> snd e \<in> set (connections src))"
  by (cases e) (auto simp add: stored_edges_def)

text \<open>
  Claim C7 says that deleting a node removes the edges into it and clears its preview
  state, so that a later preview update cannot create state for it.  The delete button
  hands \<open>onNodesChange\<close> the filtered node list and sends \<open>node_deleted\<close>, nothing more:
  with nodes \<open>n1\<close> (connected to \<open>n2\<close>) and \<open>n2\<close> (preview state present), deleting \<open>n2\<close>
  keeps the entry of \<open>n2\<close> in \<open>previewData\<close>, hands over a list in which \<open>n1\<close> is still
  connected to \<open>n2\<close>, and a later \<open>handlePreviewUpdate\<close> for \<open>n2\<close> stores its data.
\<close>

theorem delete_keeps_preview_and_incoming_edge:
  "previewData (delete_node_click ''n2''
      \<lparr> nodes = [\<lparr> node_id = ''n1'', node_type = ''document'', position = \<lparr> pos_x = 0, pos_y = 0 \<rparr>,
                    node_data = (), connections = [''n2''] \<rparr>,
                 \<lparr> node_id = ''n2'', node_type = ''processor'', position = \<lparr> pos_x = 0, pos_y = 0 \<rparr>,
                    node_data = (), connections = [] \<rparr>],
        previewData = [''n2'' \<mapsto> ''loading''], onNodesChange_calls = [],
        canvas_sent = [] \<rparr>) ''n2'' = Some ''loading'' \<and>
   map stored_edges (onNodesChange_calls (delete_node_click ''n2''
      \<lparr> nodes = [\<lparr> node_id = ''n1'', node_type = ''document'', position = \<lparr> pos_x = 0, pos_y = 0 \<rparr>,
                    node_data = (), connections = [''n2''] \<rparr>,
                 \<lparr> node_id = ''n2'', node_type = ''processor'', position = \<lparr> pos_x = 0, pos_y = 0 \<rparr>,
                    node_data = (), connections = [] \<rparr>],
        previewData = [''n2'' \<mapsto> ''loading''], onNodesChange_calls = [],
        canvas_sent = [] \<rparr>)) = [[(''n1'', ''n2'')]] \<and>
   previewData (handlePreviewUpdate ''n2'' ''success'' (delete_node_click ''n2''
      \<lparr> nodes = [\<lparr> node_id = ''n1'', node_type = ''document'', position = \<lparr> pos_x = 0, pos_y = 0 \<rparr>,
                    node_data = (), connections = [''n2''] \<rparr>,
                 \<lparr> node_id = ''n2'', node_type = ''processor'', position = \<lparr> pos_x = 0, pos_y = 0 \<rparr>,
                    node_data = (), connections = [] \<rparr>],
        previewData = [''n2'' \<mapsto> ''loading''], onNodesChange_calls = [],
        canvas_sent = [] \<rparr>)) ''n2'' = Some ''success''"
  by (simp add: delete_node_click_def handlePreviewUpdate_def stored_edges_def Let_def)

text \<open>
  C7 as the code has it: deleting a node hands \<open>onNodesChange\<close> the node list without
  that node, so without the connections it is the source of, and sends \<open>node_deleted\<close>.
  Every other node is handed over as it is, a connection to the deleted node included.
  The \<open>previewData\<close> dictionary is not touched by the deletion, and a later
  \<open>handlePreviewUpdate\<close> for the deleted id stores what it is given.
\<close>

theorem delete_node_effect:
  "onNodesChange_calls (delete_node_click nid c) =
     onNodesChange_calls c @ [filter (\<lambda>n. node_id n \<noteq> nid) (nodes c)] \<and>
   nid \<notin> node_id ` set (filter (\<lambda>n. node_id n \<noteq> nid) (nodes c)) \<and>
   (\<forall>e \<in> set (stored_edges (filter (\<lambda>n. node_id n \<noteq> nid) (nodes c))). fst e \<noteq> nid) \<and>
   (\<forall>n \<in> set (nodes c). node_id n \<noteq> nid \<longrightarrow>
      n \<in> set (filter (\<lambda>n. node_id n \<noteq> nid) (nodes c))) \<and>
   canvas_sent (delete_node_click nid c) = canvas_sent c @ [node_deleted nid] \<and>
   previewData (delete_node_click nid c) = previewData c \<and>
   previewData (handlePreviewUpdate nid d (delete_node_click nid c)) nid = Some d"
proof -
  let ?ns = "filter (\<lambda>n. node_id n \<noteq> nid) (nodes c)"
  have absent: "nid \<notin> node_id ` set ?ns"
    by auto
  have st: "\<forall>e \<in> set (stored_edges ?ns). fst e \<noteq> nid"
    using absent by (auto simp add: stored_edges_set)
  from absent st show ?thesis
    by (simp add: delete_node_click_def handlePreviewUpdate_def Let_def)
qed

theorem delete_node_effect_witness:
  "onNodesChange_calls (delete_node_click ''n2''
      \<lparr> nodes = [\<lparr> node_id = ''n1'', node_type = ''document'', position = \<lparr> pos_x = 0, pos_y = 0 \<rparr>,
                    node_data = (), connections = [''n2''] \<rparr>,
                 \<lparr> node_id = ''n2'', node_type = ''processor'', position = \<lparr> pos_x = 0, pos_y = 0 \<rparr>,
                    node_data = (), connections = [''n1''] \<rparr>],
        previewData = [''n2'' \<mapsto> ''loading''], onNodesChange_calls = [],
        canvas_sent = [] \<rparr>) =
     [[\<lparr> node_id = ''n1'', node_type = ''document'', position = \<lparr> pos_x = 0, pos_y = 0 \<rparr>,
         node_data = (), connections = [''n2''] \<rparr>]] \<and>
   previewData (delete_node_click ''n2''
      \<lparr> nodes = [\<lparr> node_id = ''n1'', node_type = ''document'', position = \<lparr> pos_x = 0, pos_y = 0 \<rparr>,
                    node_data = (), connections = [''n2''] \<rparr>,
                 \<lparr> node_id = ''n2'', node_type = ''processor'', position = \<lparr> pos_x = 0, pos_y = 0 \<rparr>,
                    node_data = (), connections = [''n1''] \<rparr>],
        previewData = [''n2'' \<mapsto> ''loading''], onNodesChange_calls = [],
        canvas_sent = [] \<rparr>) ''n2'' = Some ''loading''"
proof -
  let ?c = "\<lparr> nodes = [\<lparr> node_id = ''n1'', node_type = ''document'', position = \<lparr> pos_x = 0, pos_y = 0 \<rparr>,
                    node_data = (), connections = [''n2''] \<rparr>,
                 \<lparr> node_id = ''n2'', node_type = ''processor'', position = \<lparr> pos_x = 0, pos_y = 0 \<rparr>,
                    node_data = (), connections = [''n1''] \<rparr>],
        previewData = [''n2'' \<mapsto> ''loading''], onNodesChange_calls = [],
        canvas_sent = [] \<rparr>"
  from delete_node_effect [of "''n2''" ?c "''success''"]
  have "onNodesChange_calls (delete_node_click ''n2'' ?c) =
          onNodesChange_calls ?c @ [filter (\<lambda>n. node_id n \<noteq> ''n2'') (nodes ?c)]"
    and "previewData (delete_node_click ''n2'' ?c) = previewData ?c"
    by blast+
  then show ?thesis by simp
qed

section \<open>Properties of \<open>WebSocketClient\<close>\<close>

lemma handleReconnect_le:
  "reconnectAttempts c \<le> maxReconnectAttempts \<Longrightarrow>
   reconnectAttempts (handleReconnect c) \<le> maxReconnectAttempts"
  by (simp add: handleReconnect_def Let_def)

lemma client_send_attempts: "reconnectAttempts (client_send type c) = reconnectAttempts c"
  by (simp add: client_send_def split: option.splits prod.splits ready_state.splits)

lemma client_send_timers: "client_timers (client_send type c) = client_timers c"
  by (simp add: client_send_def split: option.splits prod.splits ready_state.splits)

lemma client_step_le:
  "reconnectAttempts c \<le> maxReconnectAttempts \<Longrightarrow>
   reconnectAttempts (client_step valid c ev) \<le> maxReconnectAttempts"
  by (cases ev)
     (auto simp add: client_connect_def client_onopen_def client_onclose_def client_timer_def
        client_disconnect_def set_readyState_def client_send_attempts Let_def
        intro!: handleReconnect_le split: option.splits)

lemma client_run_le:
  "reconnectAttempts c \<le> maxReconnectAttempts \<Longrightarrow>
   reconnectAttempts (client_run valid evs c) \<le> maxReconnectAttempts"
  unfolding client_run_def
  by (induction evs arbitrary: c) (simp_all add: client_step_le)

lemma handleReconnect_exhausted:
  "reconnectAttempts c = maxReconnectAttempts \<Longrightarrow>
   client_timers (handleReconnect c) = client_timers c \<and>
   reconnectAttempts (handleReconnect c) = maxReconnectAttempts"
  by (simp add: handleReconnect_def)

lemma client_step_exhausted:
  "reconnectAttempts c = maxReconnectAttempts \<Longrightarrow> ev \<noteq> ClientOpens \<Longrightarrow>
   client_timers (client_step valid c ev) = client_timers c \<and>
   reconnectAttempts (client_step valid c ev) = maxReconnectAttempts"
  by (cases ev)
     (auto simp add: client_connect_def client_onclose_def client_timer_def
        client_disconnect_def set_readyState_def client_send_attempts client_send_timers
        handleReconnect_exhausted split: option.splits)

lemma client_run_exhausted:
  "reconnectAttempts c = maxReconnectAttempts \<Longrightarrow> ClientOpens \<notin> set evs \<Longrightarrow>
   client_timers (client_run valid evs c) = client_timers c \<and>
   reconnectAttempts (client_run valid evs c) = maxReconnectAttempts"
  unfolding client_run_def
proof (induction evs arbitrary: c)
  case Nil
  then show ?case by simp
next
  case (Cons ev evs)
  then have ev: "ev \<noteq> ClientOpens" and rest: "ClientOpens \<notin> set evs" by auto
  from client_step_exhausted [OF Cons.prems(1) ev, of valid]
  have st: "client_timers (client_step valid c ev) = client_timers c"
    "reconnectAttempts (client_step valid c ev) = maxReconnectAttempts" by simp_all
  from Cons.IH [OF st(2) rest] st(1) show ?case by simp
qed

lemma client_closes_step:
  "client_timers (client_onclose (set_readyState CLOSED c)) =
     client_timers c @ (if reconnectAttempts c < maxReconnectAttempts
                        then [reconnectDelay * 2 ^ reconnectAttempts c] else [])"
  "reconnectAttempts (client_onclose (set_readyState CLOSED c)) =
     (if reconnectAttempts c < maxReconnectAttempts then Suc (reconnectAttempts c)
      else reconnectAttempts c)"
  by (simp_all add: client_onclose_def set_readyState_def handleReconnect_def Let_def)

lemma client_closes_run:
  "reconnectAttempts c \<le> maxReconnectAttempts \<Longrightarrow>
   client_timers (client_run valid (replicate n ClientCloses) c) =
     client_timers c @ map (\<lambda>k. reconnectDelay * 2 ^ k)
       [reconnectAttempts c ..< min (reconnectAttempts c + n) maxReconnectAttempts]"
proof (induction n arbitrary: c)
  case 0
  then show ?case by (simp add: client_run_def)
next
  case (Suc n)
  let ?c = "client_step valid c ClientCloses"
  have run: "client_run valid (ClientCloses # replicate n ClientCloses) c =
             client_run valid (replicate n ClientCloses) ?c"
    by (simp add: client_run_def)
  show ?case
  proof (cases "reconnectAttempts c < maxReconnectAttempts")
    case True
    then have le: "reconnectAttempts ?c \<le> maxReconnectAttempts"
      by (simp add: client_closes_step)
    have "[reconnectAttempts c ..< min (reconnectAttempts c + Suc n) maxReconnectAttempts] =
          reconnectAttempts c # [Suc (reconnectAttempts c) ..< min (Suc (reconnectAttempts c) + n) maxReconnectAttempts]"
      using True by (simp add: upt_conv_Cons)
    then show ?thesis
      using True Suc.IH [OF le] by (simp add: run client_closes_step)
  next
    case False
    with Suc.prems have eq: "reconnectAttempts c = maxReconnectAttempts" by simp
    then have le: "reconnectAttempts ?c \<le> maxReconnectAttempts"
      by (simp add: client_closes_step)
    show ?thesis
      using eq Suc.IH [OF le] by (simp add: run client_closes_step)
  qed
qed

text \<open>
  Claim C9.  In every state the client reaches from its initial state,
  \<open>reconnectAttempts\<close> is at most 5.  While it is below 5, \<open>handleReconnect\<close> increments it
  and sets a timer of 1000 times 2 to the old count, so that \<open>n\<close> closes in a row from count 0
  set the timers 1000, 2000, 4000, ... for the first five and none after.  At count 5
  no event other than the open of a socket sets a timer or changes the count (a call of
  \<open>connect\<close> included), and the open of a socket resets the count to 0.
\<close>

theorem reconnect_attempts_bounded:
  "reconnectAttempts (client_run valid evs client_init) \<le> maxReconnectAttempts \<and>
   maxReconnectAttempts = 5 \<and>
   (reconnectAttempts c < 5 \<longrightarrow>
      client_timers (handleReconnect c) = client_timers c @ [1000 * 2 ^ reconnectAttempts c] \<and>
      reconnectAttempts (handleReconnect c) = reconnectAttempts c + 1) \<and>
   (reconnectAttempts c = 0 \<longrightarrow>
      client_timers (client_run valid (replicate n ClientCloses) c) =
        client_timers c @ map (\<lambda>k. 1000 * 2 ^ k) [0 ..< min n 5]) \<and>
   (reconnectAttempts c = 5 \<and> ClientOpens \<notin> set evs' \<longrightarrow>
      client_timers (client_run valid evs' c) = client_timers c \<and>
      reconnectAttempts (client_run valid evs' c) = 5) \<and>
   reconnectAttempts (client_step valid c ClientOpens) = 0"
proof -
  have 1: "reconnectAttempts (client_run valid evs client_init) \<le> maxReconnectAttempts"
    by (rule client_run_le) (simp add: client_init_def)
  have 2: "reconnectAttempts c < 5 \<longrightarrow>
      client_timers (handleReconnect c) = client_timers c @ [1000 * 2 ^ reconnectAttempts c] \<and>
      reconnectAttempts (handleReconnect c) = reconnectAttempts c + 1"
    by (simp add: handleReconnect_def maxReconnectAttempts_def reconnectDelay_def Let_def)
  have 3: "reconnectAttempts c = 0 \<longrightarrow>
      client_timers (client_run valid (replicate n ClientCloses) c) =
        client_timers c @ map (\<lambda>k. 1000 * 2 ^ k) [0 ..< min n 5]"
    using client_closes_run [of c valid n]
    by (simp add: maxReconnectAttempts_def reconnectDelay_def)
  have 4: "reconnectAttempts c = 5 \<and> ClientOpens \<notin> set evs' \<longrightarrow>
      client_timers (client_run valid evs' c) = client_timers c \<and>
      reconnectAttempts (client_run valid evs' c) = 5"
    using client_run_exhausted [of c evs' valid] by (simp add: maxReconnectAttempts_def)
  have 5: "reconnectAttempts (client_step valid c ClientOpens) = 0"
    by (simp add: client_onopen_def Let_def client_send_attempts)
  from 1 2 3 4 5 show ?thesis
    by (simp add: maxReconnectAttempts_def)
qed

theorem reconnect_attempts_bounded_witness:
  "reconnectAttempts (client_run (\<lambda>url. True)
      [ClientConnect ''ws://localhost:8000/ws'', ClientCloses, ClientTimer, ClientCloses] client_init) \<le> 5 \<and>
   client_timers (client_run (\<lambda>url. True) (replicate 7 ClientCloses) client_init) =
     [1000, 2000, 4000, 8000, 16000]"
proof -
  have h: "reconnectAttempts client_init = 0" "client_timers client_init = []"
    by (simp_all add: client_init_def)
  have u: "map (\<lambda>k. 1000 * 2 ^ k) [0 ..< min 7 5] = [1000, 2000, 4000, 8000, 16000 :: nat]"
    by code_simp
  from reconnect_attempts_bounded [of "\<lambda>url. True"
      "[ClientConnect ''ws://localhost:8000/ws'', ClientCloses, ClientTimer, ClientCloses]"
      client_init 7 "[]"] h u
  show ?thesis by simp
qed

end
